theory Spec2Isabelle
  imports Main
begin

section \<open>Values shared by the login route and the authorization gate\<close>

text \<open>
  The repository is an Express application. Two pieces of it are embedded here, both from
  \<^verbatim>\<open>src/routes/AuthRoutes.js\<close>: the \<^verbatim>\<open>POST /login\<close> handler and the \<^verbatim>\<open>protect\<close>
  middleware. Their collaborators (the Mongoose \<^verbatim>\<open>User\<close> model, \<^verbatim>\<open>bcrypt\<close>,
  \<^verbatim>\<open>jsonwebtoken\<close>, the next Express handler) are parameters of the embedded functions:
  each is a function that either returns a value or throws, a thrown value being the
  \<open>Inl\<close> side of a sum. What Express and the packages do, where a property depends on it,
  is written down as a definition of its own and named after them. The \<^verbatim>\<open>console.log\<close> calls do not throw and write nothing to the
  request or the response; they are left out.
\<close>

text \<open>A thrown JavaScript value. The first three are the failures of token verification.\<close>

datatype exn = TokenMalformed | SignatureInvalid | TokenExpired | OtherError string


text \<open>The fields of a stored user document that the two handlers read.\<close>

record user =
  user_id :: string
  firstName :: string
  lastName :: string
  email :: string
  username :: string
  avatar :: string
  phone :: string
  userRole :: string
  password :: string

text \<open>
  The decoded payload of a token: \<^verbatim>\<open>userId\<close> is the subject identifier, \<open>role\<close> is absent
  in a token issued without one, the two timestamps are seconds.
\<close>

record claims =
  userId :: string
  role :: "string option"
  issuedAt :: nat
  expiresAt :: nat

section \<open>The authorization gate: \<^verbatim>\<open>protect\<close>\<close>

text \<open>
  \<^verbatim>\<open>s.split(sep)\<close> for a separator of one character: the segments of \<open>s\<close> between
  occurrences of \<open>sep\<close>, never an empty list (\<^verbatim>\<open>"".split(' ')\<close> is \<^verbatim>\<open>[""]\<close>).
\<close>

fun js_split :: "char \<Rightarrow> string \<Rightarrow> string list" where
  "js_split sep [] = [[]]"
| "js_split sep (c # cs) =
     (if c = sep then [] # js_split sep cs
      else (case js_split sep cs of [] \<Rightarrow> [[c]] | w # ws \<Rightarrow> (c # w) # ws))"

text \<open>
  \<^verbatim>\<open>req.headers.authorization?.split(' ')[1]\<close>: \<open>None\<close> is \<^verbatim>\<open>undefined\<close>, which is the
  value for an absent header (by \<^verbatim>\<open>?.\<close>) and for a header with no second segment.
\<close>

definition extract_token :: "string option \<Rightarrow> string option" where
  "extract_token authorization =
     (case authorization of
        None \<Rightarrow> None
      | Some s \<Rightarrow> (case js_split (CHR '' '') s of _ # t # _ \<Rightarrow> Some t | _ \<Rightarrow> None))"

text \<open>The calls the gate makes to its collaborators, in the order it makes them.\<close>

datatype call =
  JwtVerify string string
| FindById string
| Next "user option"

text \<open>
  What one run of the gate leaves behind: \<^verbatim>\<open>req.user\<close>, the response written with
  \<^verbatim>\<open>res.status(s).json({ message: m })\<close> (status and message; \<open>None\<close> when the gate wrote
  none), and the calls made. \<open>Next u\<close> records a call of \<^verbatim>\<open>next()\<close> made while
  \<^verbatim>\<open>req.user\<close> was \<open>u\<close>.
\<close>

record ctx =
  req_user :: "user option"
  res :: "(nat \<times> string) option"
  calls :: "call list"

definition ctx0 :: ctx where
  "ctx0 = \<lparr>req_user = None, res = None, calls = []\<rparr>"

text \<open>
  The body of the \<^verbatim>\<open>try\<close> block (source lines 169 to 191). It returns the context reached
  and the exception that left the block, if one did: what was written before a throw stays
  written. \<open>secret\<close> is \<^verbatim>\<open>process.env.ACCESS_TOKEN_SECRET\<close>. \<open>jwt_verify\<close> is
  \<^verbatim>\<open>jwt.verify\<close>, \<open>findById\<close> is \<^verbatim>\<open>User.findById\<close> awaited (\<open>Inr None\<close> for \<^verbatim>\<open>null\<close>),
  and \<open>next\<close> gives the exception that the call \<^verbatim>\<open>next()\<close> throws, if it throws; what the
  downstream handler writes to the response is its own business and is not recorded.
\<close>

definition protect_try ::
  "string \<Rightarrow> (string \<Rightarrow> string \<Rightarrow> exn + claims) \<Rightarrow> (string \<Rightarrow> exn + user option) \<Rightarrow>
   (user option \<Rightarrow> exn option) \<Rightarrow> string list \<Rightarrow> string \<Rightarrow> ctx \<Rightarrow> ctx \<times> exn option" where
  "protect_try secret jwt_verify findById next allowedRoles token c =
     (let c1 = c\<lparr>calls := calls c @ [JwtVerify token secret]\<rparr> in
      case jwt_verify token secret of
        Inl e \<Rightarrow> (c1, Some e)
      | Inr decoded \<Rightarrow>
          (let c2 = c1\<lparr>calls := calls c1 @ [FindById (userId decoded)]\<rparr> in
           case findById (userId decoded) of
             Inl e \<Rightarrow> (c2, Some e)
           | Inr None \<Rightarrow> (c2\<lparr>res := Some (404, ''User not found'')\<rparr>, None)
           | Inr (Some u) \<Rightarrow>
               (let c3 = c2\<lparr>req_user := Some u\<rparr> in
                if allowedRoles \<noteq> [] \<and> \<not> List.member allowedRoles (userRole u)
                then (c3\<lparr>res := Some (403, ''Access forbidden: Insufficient privileges'')\<rparr>, None)
                else (c3\<lparr>calls := calls c3 @ [Next (req_user c3)]\<rparr>, next (req_user c3)))))"

text \<open>
  \<^verbatim>\<open>protect(allowedRoles)(req, res, next)\<close>, from the value of the authorization header.
  \<^verbatim>\<open>!token\<close> holds for \<^verbatim>\<open>undefined\<close> and for the empty string.
\<close>

definition protect ::
  "string \<Rightarrow> (string \<Rightarrow> string \<Rightarrow> exn + claims) \<Rightarrow> (string \<Rightarrow> exn + user option) \<Rightarrow>
   (user option \<Rightarrow> exn option) \<Rightarrow> string list \<Rightarrow> string option \<Rightarrow> ctx" where
  "protect secret jwt_verify findById next allowedRoles authorization =
     (case extract_token authorization of
        None \<Rightarrow> ctx0\<lparr>res := Some (401, ''Authorization token required'')\<rparr>
      | Some token \<Rightarrow>
          if token = [] then ctx0\<lparr>res := Some (401, ''Authorization token required'')\<rparr>
          else (case protect_try secret jwt_verify findById next allowedRoles token ctx0 of
                  (c, None) \<Rightarrow> c
                | (c, Some e) \<Rightarrow> c\<lparr>res := Some (401, ''Invalid or expired token'')\<rparr>))"

text \<open>The header carries no token the gate can use: \<^verbatim>\<open>!token\<close> in the source.\<close>

definition no_token :: "string option \<Rightarrow> bool" where
  "no_token authorization =
     (extract_token authorization = None \<or> extract_token authorization = Some [])"

text \<open>What follows the first space of a string, if it has a space.\<close>

fun after_space :: "string \<Rightarrow> string option" where
  "after_space [] = None"
| "after_space (c # cs) = (if c = CHR '' '' then Some cs else after_space cs)"

text \<open>
  The header is absent, or has no space, or its first space is its last character or is
  followed by another space: there is no non-empty second segment.
\<close>

definition lacks_token :: "string option \<Rightarrow> bool" where
  "lacks_token authorization =
     (case authorization of
        None \<Rightarrow> True
      | Some s \<Rightarrow>
          (case after_space s of
             None \<Rightarrow> True
           | Some [] \<Rightarrow> True
           | Some (c # _) \<Rightarrow> c = CHR '' ''))"

text \<open>
  The bearer token of a header as the specification words it, "caller supplies
  \<^verbatim>\<open>Authorization: Bearer <accessToken>\<close> header": the header is the word \<^verbatim>\<open>Bearer\<close>, one
  space and a non-empty token without spaces. Every other header, and an absent one, has
  no bearer token. This is the specification's reading, not the code's: the code is
  \<open>extract_token\<close>.
\<close>

definition spec_bearer_token :: "string option \<Rightarrow> string option" where
  "spec_bearer_token authorization =
     (case authorization of
        None \<Rightarrow> None
      | Some s \<Rightarrow>
          if take 7 s = ''Bearer '' \<and> drop 7 s \<noteq> [] \<and> CHR '' '' \<notin> set (drop 7 s)
          then Some (drop 7 s) else None)"

text \<open>
  \<^verbatim>\<open>next\<close> as the Express router hands it to a middleware (the framework is not among the
  sources): the router calls the downstream handler inside a \<^verbatim>\<open>try\<close> of its own and
  passes what the handler throws to its error handling, so the call \<^verbatim>\<open>next()\<close> returns
  normally whether the handler threw or not. \<open>handler\<close> gives the exception the downstream
  handler throws, if it throws.
\<close>

definition express_next :: "(user option \<Rightarrow> exn option) \<Rightarrow> user option \<Rightarrow> exn option" where
  "express_next handler u = (case handler u of None \<Rightarrow> None | Some e \<Rightarrow> None)"

text \<open>The header carries the non-empty token \<open>token\<close>: the gate goes on to verify it.\<close>

definition has_token :: "string option \<Rightarrow> string \<Rightarrow> bool" where
  "has_token authorization token =
     (extract_token authorization = Some token \<and> token \<noteq> [])"

text \<open>
  The role check of source line 183 fails: \<^verbatim>\<open>allowedRoles.length\<close> is not zero and
  \<^verbatim>\<open>allowedRoles.includes(user.userRole)\<close> is false.
\<close>

definition role_refused :: "string list \<Rightarrow> user \<Rightarrow> bool" where
  "role_refused allowedRoles u =
     (allowedRoles \<noteq> [] \<and> \<not> List.member allowedRoles (userRole u))"

section \<open>The login route: \<^verbatim>\<open>POST /login\<close>\<close>







section \<open>The token codec\<close>

text \<open>
  The functions that issue tokens live in \<^verbatim>\<open>utils/jwt.js\<close>, which is not among the
  sources, and verification is \<^verbatim>\<open>jwt.verify\<close> of the \<^verbatim>\<open>jsonwebtoken\<close> package. The codec
  below follows the specification's contract of them.
\<close>

text \<open>
  Modelled from the spec: a Token is "an opaque signed string encoding Claims + a signature
  computed with a process-wide secret". The signing primitive and the wire format belong
  to the \<^verbatim>\<open>jsonwebtoken\<close> package, which is not among the sources, and are parameters:
  \<open>lib_sign secret claims\<close> is the signature, \<open>lib_serialize claims signature\<close> the token
  string, \<open>lib_parse\<close> reads a token string back (\<open>None\<close> when it has not the expected
  structure).
\<close>

record codec_lib =
  lib_sign :: "string \<Rightarrow> claims \<Rightarrow> string"
  lib_serialize :: "claims \<Rightarrow> string \<Rightarrow> string"
  lib_parse :: "string \<Rightarrow> (claims \<times> string) option"

text \<open>
  Modelled from the spec: the process-wide configuration surface (access-token secret,
  refresh-token secret, access TTL, refresh TTL); the code that loads it is not among the
  sources.
\<close>

record config =
  accessSecret :: string
  refreshSecret :: string
  accessTTL :: nat
  refreshTTL :: nat

text \<open>
  Modelled from the spec: the Claims that \<^verbatim>\<open>issueAccessToken(subjectId, role)\<close> builds,
  "issuedAt = now, expiresAt = now + accessTTL" (\<^verbatim>\<open>utils/jwt.js\<close> is missing).
\<close>

definition accessClaims :: "config \<Rightarrow> nat \<Rightarrow> string \<Rightarrow> string \<Rightarrow> claims" where
  "accessClaims cfg now subjectId r =
     \<lparr>userId = subjectId, role = Some r, issuedAt = now, expiresAt = now + accessTTL cfg\<rparr>"

text \<open>
  Modelled from the spec: \<^verbatim>\<open>issueAccessToken\<close> "serializes and signs with the access
  secret" the Claims it built (\<^verbatim>\<open>utils/jwt.js\<close> is missing).
\<close>

definition issueAccessToken :: "codec_lib \<Rightarrow> config \<Rightarrow> nat \<Rightarrow> string \<Rightarrow> string \<Rightarrow> string" where
  "issueAccessToken lib cfg now subjectId r =
     (let c = accessClaims cfg now subjectId r
      in lib_serialize lib c (lib_sign lib (accessSecret cfg) c))"



text \<open>
  Modelled from the spec: \<^verbatim>\<open>verify(token, secret)\<close> "fails with TokenMalformed if the
  string cannot be parsed into the expected structure; fails with SignatureInvalid if the
  signature does not match under the given secret; fails with TokenExpired if
  now > expiresAt. On success returns Claims" (the verifier is the \<^verbatim>\<open>jsonwebtoken\<close>
  package, not among the sources). \<open>now\<close> is the time of the verification.
\<close>

definition verify :: "codec_lib \<Rightarrow> nat \<Rightarrow> string \<Rightarrow> string \<Rightarrow> exn + claims" where
  "verify lib now token secret =
     (case lib_parse lib token of
        None \<Rightarrow> Inl TokenMalformed
      | Some (c, sg) \<Rightarrow>
          if sg \<noteq> lib_sign lib secret c then Inl SignatureInvalid
          else if now > expiresAt c then Inl TokenExpired
          else Inr c)"

text \<open>
  The property of the package that the codec relies on: the library reads back the token
  it serialised from \<open>c\<close> and \<open>sg\<close>.
\<close>

definition parses_back :: "codec_lib \<Rightarrow> claims \<Rightarrow> string \<Rightarrow> bool" where
  "parses_back lib c sg = (lib_parse lib (lib_serialize lib c sg) = Some (c, sg))"

section \<open>Example data\<close>

definition alice :: user where
  "alice = \<lparr>user_id = ''u1'', firstName = ''Alice'', lastName = ''Ng'',
     email = ''alice@example.org'', username = ''alice'', avatar = ''a.png'',
     phone = ''555'', userRole = ''user'', password = ''hash-of-pw''\<rparr>"

definition alice_claims :: claims where
  "alice_claims = \<lparr>userId = ''u1'', role = Some ''user'', issuedAt = 10, expiresAt = 20\<rparr>"

text \<open>A verifier that accepts exactly the token \<^verbatim>\<open>tok\<close> under the secret \<^verbatim>\<open>s\<close>.\<close>

definition verify_tok :: "string \<Rightarrow> string \<Rightarrow> exn + claims" where
  "verify_tok token secret =
     (if token = ''tok'' \<and> secret = ''s'' then Inr alice_claims else Inl SignatureInvalid)"

text \<open>A store that holds Alice alone.\<close>

definition store_alice :: "string \<Rightarrow> exn + user option" where
  "store_alice i = Inr (if i = ''u1'' then Some alice else None)"

text \<open>
  A store whose lookup throws, a \<^verbatim>\<open>next\<close> that returns, and a downstream handler that
  throws.
\<close>

definition store_down :: "string \<Rightarrow> exn + user option" where
  "store_down i = Inl (OtherError ''connection lost'')"

definition next_returns :: "user option \<Rightarrow> exn option" where
  "next_returns u = None"

definition handler_throws :: "user option \<Rightarrow> exn option" where
  "handler_throws u = Some (OtherError ''handler failed'')"





text \<open>
  A small instance of the package: the signature is the secret followed by the subject,
  the token is the fields joined by dots, the timestamps in unary.
\<close>

definition demo_lib :: codec_lib where
  "demo_lib =
     \<lparr>lib_sign = (\<lambda>k c. k @ ''#'' @ userId c),
      lib_serialize = (\<lambda>c sg. userId c @ ''.'' @ (case role c of None \<Rightarrow> [] | Some r \<Rightarrow> r)
         @ ''.'' @ replicate (issuedAt c) (CHR ''i'') @ ''.''
         @ replicate (expiresAt c) (CHR ''e'') @ ''.'' @ sg),
      lib_parse = (\<lambda>s. case js_split (CHR ''.'') s of
           [a, b, i, e, g] \<Rightarrow>
             Some (\<lparr>userId = a, role = (if b = [] then None else Some b),
                     issuedAt = length i, expiresAt = length e\<rparr>, g)
         | _ \<Rightarrow> None)\<rparr>"

definition demo_cfg :: config where
  "demo_cfg = \<lparr>accessSecret = ''ka'', refreshSecret = ''kr'', accessTTL = 2, refreshTTL = 5\<rparr>"




section \<open>Properties of the gate\<close>

text \<open>What \<^verbatim>\<open>split\<close> gives for a string without the separator, and at the first separator.\<close>

lemma js_split_no_sep: "sep \<notin> set s \<Longrightarrow> js_split sep s = [s]"
  by (induction s) auto

lemma js_split_first: "sep \<notin> set w \<Longrightarrow> js_split sep (w @ sep # rest) = w # js_split sep rest"
  by (induction w) auto

lemma js_split_not_Nil: "js_split sep s \<noteq> []"
  by (induction s) (auto split: list.splits)

text \<open>A header without a space carries no token.\<close>

lemma no_token_without_space: "CHR '' '' \<notin> set s \<Longrightarrow> no_token (Some s)"
  by (simp add: no_token_def extract_token_def js_split_no_sep)

text \<open>The header \<^verbatim>\<open>Bearer t\<close> carries the token \<open>t\<close>, when \<open>t\<close> is not empty and has no space.\<close>

lemma bearer_has_token:
  "t \<noteq> [] \<Longrightarrow> CHR '' '' \<notin> set t \<Longrightarrow> has_token (Some (''Bearer '' @ t)) t"
  using js_split_first [of "CHR '' ''" "''Bearer''" t]
  by (simp add: has_token_def extract_token_def js_split_no_sep)

text \<open>The first segment of a split, and the split at the first space.\<close>

lemma js_split_head: "\<exists>ws. js_split sep r = takeWhile (\<lambda>c. c \<noteq> sep) r # ws"
  by (induction r) auto

lemma js_split_after_space:
  "js_split (CHR '' '') s =
     (case after_space s of
        None \<Rightarrow> [s]
      | Some r \<Rightarrow> takeWhile (\<lambda>c. c \<noteq> CHR '' '') s # js_split (CHR '' '') r)"
  by (induction s) (auto split: option.splits)

text \<open>The token the gate extracts is what lies between the first space and the next.\<close>

lemma extract_token_after_space:
  "extract_token (Some s) =
     (case after_space s of
        None \<Rightarrow> None
      | Some r \<Rightarrow> Some (takeWhile (\<lambda>c. c \<noteq> CHR '' '') r))"
proof (cases "after_space s")
  case None
  then show ?thesis
    by (simp add: extract_token_def js_split_after_space)
next
  case (Some r)
  obtain ws where "js_split (CHR '' '') r = takeWhile (\<lambda>c. c \<noteq> CHR '' '') r # ws"
    using js_split_head by blast
  with Some show ?thesis
    by (simp add: extract_token_def js_split_after_space)
qed

text \<open>\<open>lacks_token\<close> describes the headers for which \<^verbatim>\<open>!token\<close> holds.\<close>

lemma lacks_token_iff: "lacks_token authorization = no_token authorization"
proof (cases authorization)
  case None
  then show ?thesis
    by (simp add: lacks_token_def no_token_def extract_token_def)
next
  case (Some s)
  then show ?thesis
    by (auto simp: lacks_token_def no_token_def extract_token_after_space
        split: option.splits list.splits)
qed

text \<open>
  C5, as the code has it. The claim says that a header with no extractable bearer token
  is answered 401 "Authorization token required" without any verification or lookup. The
  source takes the second space-separated segment of the header whatever the first word
  is: the header \<^verbatim>\<open>Basic tok\<close> has no bearer token, yet \<^verbatim>\<open>tok\<close> is verified, the user is looked
  up and the downstream handler is called.
\<close>

theorem protect_verifies_other_scheme:
  "spec_bearer_token (Some ''Basic tok'') = None \<and>
   protect ''s'' verify_tok store_alice next_returns [] (Some ''Basic tok'') =
     \<lparr>req_user = Some alice, res = None,
      calls = [JwtVerify ''tok'' ''s'', FindById ''u1'', Next (Some alice)]\<rparr>"
  by (simp add: spec_bearer_token_def extract_token_def verify_tok_def store_alice_def
      alice_claims_def next_returns_def protect_def protect_try_def ctx0_def)

text \<open>
  C5, amended. A request whose authorization header is missing, or has no space, or has
  nothing between its first space and the next space or the end, is answered 401 with the
  message "Authorization token required", and the gate stops there: whatever the verifier,
  the store and the downstream handler are, none of them is called and nothing is attached
  to the request. Every other header, whatever its first word, is not refused at this
  step: its second segment is not empty and is handed to the verification.
\<close>

theorem protect_token_required:
  "(lacks_token authorization \<longrightarrow>
      protect secret jwt_verify findById next allowedRoles authorization =
        \<lparr>req_user = None, res = Some (401, ''Authorization token required''), calls = []\<rparr>) \<and>
   (\<not> lacks_token authorization \<longrightarrow>
      (\<exists>t rest. t \<noteq> [] \<and> extract_token authorization = Some t \<and>
         calls (protect secret jwt_verify findById next allowedRoles authorization) =
           JwtVerify t secret # rest))"
proof (intro conjI impI)
  assume "lacks_token authorization"
  then have "no_token authorization"
    by (simp add: lacks_token_iff)
  then show "protect secret jwt_verify findById next allowedRoles authorization =
      \<lparr>req_user = None, res = Some (401, ''Authorization token required''), calls = []\<rparr>"
    by (auto simp: no_token_def protect_def ctx0_def)
next
  assume "\<not> lacks_token authorization"
  then have "\<not> no_token authorization"
    by (simp add: lacks_token_iff)
  then obtain t where t: "extract_token authorization = Some t" "t \<noteq> []"
    by (auto simp: no_token_def)
  have "\<exists>rest. calls (protect secret jwt_verify findById next allowedRoles authorization) =
      JwtVerify t secret # rest"
    using t
    by (auto simp: protect_def protect_try_def ctx0_def Let_def
        split: sum.splits option.splits prod.splits if_splits)
  with t show "\<exists>t rest. t \<noteq> [] \<and> extract_token authorization = Some t \<and>
      calls (protect secret jwt_verify findById next allowedRoles authorization) =
        JwtVerify t secret # rest"
    by blast
qed

theorem protect_token_required_witness:
  "lacks_token None \<and> lacks_token (Some ''Bearer'') \<and> lacks_token (Some ''Bearer '') \<and>
   lacks_token (Some ''Bearer  tok'') \<and>
   protect ''s'' verify_tok store_alice next_returns [''admin''] (Some ''Bearer '') =
     \<lparr>req_user = None, res = Some (401, ''Authorization token required''), calls = []\<rparr> \<and>
   \<not> lacks_token (Some ''Basic tok'') \<and>
   take 1 (calls (protect ''s'' verify_tok store_alice next_returns [] (Some ''Basic tok''))) =
     [JwtVerify ''tok'' ''s'']"
proof -
  have a: "lacks_token None" by (simp add: lacks_token_def)
  have b: "lacks_token (Some ''Bearer'')" by (simp add: lacks_token_def)
  have c: "lacks_token (Some ''Bearer '')" by (simp add: lacks_token_def)
  have d: "lacks_token (Some ''Bearer  tok'')" by (simp add: lacks_token_def)
  have e: "\<not> lacks_token (Some ''Basic tok'')" by (simp add: lacks_token_def)
  have x: "extract_token (Some ''Basic tok'') = Some ''tok''"
    by (simp add: extract_token_def)
  have r: "protect ''s'' verify_tok store_alice next_returns [''admin''] (Some ''Bearer '') =
     \<lparr>req_user = None, res = Some (401, ''Authorization token required''), calls = []\<rparr>"
    using c protect_token_required [of "Some ''Bearer ''" "''s''" verify_tok store_alice
        next_returns "[''admin'']"]
    by simp
  have v: "take 1 (calls (protect ''s'' verify_tok store_alice next_returns []
      (Some ''Basic tok''))) = [JwtVerify ''tok'' ''s'']"
    using e x protect_token_required [of "Some ''Basic tok''" "''s''" verify_tok store_alice
        next_returns "[]"]
    by auto
  show ?thesis using a b c d e r v by simp
qed

text \<open>
  C4. Whatever exception the verifier throws for the extracted token (a malformed token,
  a bad signature, an expired token), the gate answers 401 with the one message
  "Invalid or expired token", looks nobody up, attaches nothing and does not call the
  downstream handler: the outcome does not depend on the cause, so two verifiers that
  fail for different reasons leave the same outcome.
\<close>

theorem protect_verify_failure_collapsed:
  "has_token authorization token \<Longrightarrow> jwt_verify token secret = Inl e \<Longrightarrow>
   jwt_verify' token secret = Inl e' \<Longrightarrow>
   protect secret jwt_verify findById next allowedRoles authorization =
     \<lparr>req_user = None, res = Some (401, ''Invalid or expired token''),
      calls = [JwtVerify token secret]\<rparr> \<and>
   protect secret jwt_verify' findById next allowedRoles authorization =
     protect secret jwt_verify findById next allowedRoles authorization"
  by (simp add: has_token_def protect_def protect_try_def ctx0_def)

theorem protect_verify_failure_collapsed_witness:
  "has_token (Some ''Bearer bad'') ''bad'' \<and>
   protect ''s'' (\<lambda>t s. Inl TokenMalformed) store_alice (\<lambda>u. None) [] (Some ''Bearer bad'') =
     \<lparr>req_user = None, res = Some (401, ''Invalid or expired token''),
      calls = [JwtVerify ''bad'' ''s'']\<rparr> \<and>
   protect ''s'' (\<lambda>t s. Inl TokenExpired) store_alice (\<lambda>u. None) [] (Some ''Bearer bad'') =
     protect ''s'' (\<lambda>t s. Inl TokenMalformed) store_alice (\<lambda>u. None) [] (Some ''Bearer bad'')"
proof -
  have h: "has_token (Some ''Bearer bad'') ''bad''"
    by (simp add: has_token_def extract_token_def)
  show ?thesis
    using h protect_verify_failure_collapsed [OF h, of "\<lambda>t s. Inl TokenMalformed" "''s''"
        TokenMalformed "\<lambda>t s. Inl TokenExpired" TokenExpired store_alice "\<lambda>u. None" "[]"]
    by simp
qed

text \<open>
  C3. When the token verifies and the store returns no user for its subject, the gate
  answers 404 with the message "User not found" (not the 401 of a verification failure),
  attaches nothing and does not call the downstream handler.
\<close>

theorem protect_user_not_found:
  "has_token authorization token \<Longrightarrow> jwt_verify token secret = Inr decoded \<Longrightarrow>
   findById (userId decoded) = Inr None \<Longrightarrow>
   protect secret jwt_verify findById next allowedRoles authorization =
     \<lparr>req_user = None, res = Some (404, ''User not found''),
      calls = [JwtVerify token secret, FindById (userId decoded)]\<rparr> \<and>
   res (protect secret jwt_verify findById next allowedRoles authorization)
     \<noteq> Some (401, ''Invalid or expired token'')"
  by (simp add: has_token_def protect_def protect_try_def ctx0_def)

theorem protect_user_not_found_witness:
  "has_token (Some ''Bearer tok'') ''tok'' \<and> verify_tok ''tok'' ''s'' = Inr alice_claims \<and>
   protect ''s'' verify_tok (\<lambda>i. Inr None) (\<lambda>u. None) [] (Some ''Bearer tok'') =
     \<lparr>req_user = None, res = Some (404, ''User not found''),
      calls = [JwtVerify ''tok'' ''s'', FindById ''u1'']\<rparr>"
proof -
  have h: "has_token (Some ''Bearer tok'') ''tok''"
    by (simp add: has_token_def extract_token_def)
  have v: "verify_tok ''tok'' ''s'' = Inr alice_claims"
    by (simp add: verify_tok_def)
  show ?thesis
    using h v protect_user_not_found [of "Some ''Bearer tok''" "''tok''" verify_tok "''s''"
        alice_claims "\<lambda>i. Inr None" "\<lambda>u. None" "[]"]
    by (simp add: alice_claims_def)
qed

text \<open>
  C1, as the code has it. The claim says that the resolved identity is not attached when
  the role check fails. The source assigns \<^verbatim>\<open>req.user\<close> at line 179, before the role
  check of line 183, so the claim fails: with the allowed roles \<^verbatim>\<open>["admin"]\<close> and a user
  whose role is \<^verbatim>\<open>"user"\<close> the gate leaves that user attached to the request.
\<close>

theorem protect_attaches_when_refused:
  "has_token (Some ''Bearer tok'') ''tok'' \<and> verify_tok ''tok'' ''s'' = Inr alice_claims \<and>
   store_alice (userId alice_claims) = Inr (Some alice) \<and> role_refused [''admin''] alice \<and>
   req_user (protect ''s'' verify_tok store_alice next_returns [''admin'']
     (Some ''Bearer tok'')) = Some alice"
  by (simp add: has_token_def extract_token_def verify_tok_def store_alice_def
      alice_claims_def alice_def role_refused_def protect_def protect_try_def
      ctx0_def)

text \<open>
  C1, amended. When the token verifies and the store returns a user, that user is attached
  to the request as soon as it is resolved, whether or not the role check then passes;
  what depends on the role check is the call of the downstream handler, which is made
  exactly when the check does not refuse the role.
\<close>

theorem protect_attaches_at_resolve:
  "has_token authorization token \<Longrightarrow> jwt_verify token secret = Inr decoded \<Longrightarrow>
   findById (userId decoded) = Inr (Some u) \<Longrightarrow>
   req_user (protect secret jwt_verify findById next allowedRoles authorization) = Some u \<and>
   ((\<exists>x. Next x \<in> set (calls (protect secret jwt_verify findById next allowedRoles
        authorization))) = (\<not> role_refused allowedRoles u))"
  by (cases "next (Some u)")
    (auto simp: has_token_def protect_def protect_try_def ctx0_def role_refused_def Let_def)

theorem protect_attaches_at_resolve_witness:
  "has_token (Some ''Bearer tok'') ''tok'' \<and> verify_tok ''tok'' ''s'' = Inr alice_claims \<and>
   store_alice (userId alice_claims) = Inr (Some alice) \<and> role_refused [''admin''] alice \<and>
   req_user (protect ''s'' verify_tok store_alice next_returns [''admin'']
     (Some ''Bearer tok'')) = Some alice \<and>
   \<not> (\<exists>x. Next x \<in> set (calls (protect ''s'' verify_tok store_alice next_returns [''admin'']
     (Some ''Bearer tok''))))"
proof -
  have h: "has_token (Some ''Bearer tok'') ''tok''"
    by (simp add: has_token_def extract_token_def)
  have v: "verify_tok ''tok'' ''s'' = Inr alice_claims"
    by (simp add: verify_tok_def)
  have f: "store_alice (userId alice_claims) = Inr (Some alice)"
    by (simp add: store_alice_def alice_claims_def)
  have r: "role_refused [''admin''] alice"
    by (simp add: role_refused_def alice_def)
  show ?thesis
    using h v f r protect_attaches_at_resolve [of "Some ''Bearer tok''" "''tok''" verify_tok
        "''s''" alice_claims store_alice alice next_returns "[''admin'']"]
    by simp
qed

text \<open>
  C2, as the code has it. The claim gives the message of the 403 response as
  "Access forbidden: insufficient privileges". The source writes
  "Access forbidden: Insufficient privileges", with a capital I, so the response is not
  the one the claim states.
\<close>

theorem protect_forbidden_message_differs:
  "has_token (Some ''Bearer tok'') ''tok'' \<and> verify_tok ''tok'' ''s'' = Inr alice_claims \<and>
   store_alice (userId alice_claims) = Inr (Some alice) \<and> role_refused [''admin''] alice \<and>
   res (protect ''s'' verify_tok store_alice next_returns [''admin''] (Some ''Bearer tok''))
     \<noteq> Some (403, ''Access forbidden: insufficient privileges'')"
  by (simp add: has_token_def extract_token_def verify_tok_def store_alice_def
      alice_claims_def alice_def role_refused_def protect_def protect_try_def
      ctx0_def)

text \<open>
  C2, amended. When the token verifies, the store returns a user, the allowed roles are not
  empty and the user's role is not among them, the gate answers 403 with the message
  "Access forbidden: Insufficient privileges" and does not call the downstream handler:
  its only calls are the verification and the lookup.
\<close>

theorem protect_forbidden:
  "has_token authorization token \<Longrightarrow> jwt_verify token secret = Inr decoded \<Longrightarrow>
   findById (userId decoded) = Inr (Some u) \<Longrightarrow> role_refused allowedRoles u \<Longrightarrow>
   protect secret jwt_verify findById next allowedRoles authorization =
     \<lparr>req_user = Some u, res = Some (403, ''Access forbidden: Insufficient privileges''),
      calls = [JwtVerify token secret, FindById (userId decoded)]\<rparr>"
  by (simp add: has_token_def protect_def protect_try_def ctx0_def role_refused_def)

theorem protect_forbidden_witness:
  "has_token (Some ''Bearer tok'') ''tok'' \<and> verify_tok ''tok'' ''s'' = Inr alice_claims \<and>
   store_alice (userId alice_claims) = Inr (Some alice) \<and> role_refused [''admin''] alice \<and>
   protect ''s'' verify_tok store_alice next_returns [''admin''] (Some ''Bearer tok'') =
     \<lparr>req_user = Some alice, res = Some (403, ''Access forbidden: Insufficient privileges''),
      calls = [JwtVerify ''tok'' ''s'', FindById ''u1'']\<rparr>"
proof -
  have h: "has_token (Some ''Bearer tok'') ''tok''"
    by (simp add: has_token_def extract_token_def)
  have v: "verify_tok ''tok'' ''s'' = Inr alice_claims"
    by (simp add: verify_tok_def)
  have f: "store_alice (userId alice_claims) = Inr (Some alice)"
    by (simp add: store_alice_def alice_claims_def)
  have r: "role_refused [''admin''] alice"
    by (simp add: role_refused_def alice_def)
  show ?thesis
    using h v f r protect_forbidden [of "Some ''Bearer tok''" "''tok''" verify_tok
        "''s''" alice_claims store_alice alice "[''admin'']" next_returns]
    by (simp add: alice_claims_def)
qed

text \<open>
  C6. When the token verifies, the store returns a user and the gate was built with no
  allowed roles, the downstream handler is called with that user attached to the request,
  whatever the user's role is. The gate itself writes no response unless the handler
  throws.
\<close>

theorem protect_admits_any_role:
  "has_token authorization token \<Longrightarrow> jwt_verify token secret = Inr decoded \<Longrightarrow>
   findById (userId decoded) = Inr (Some u) \<Longrightarrow>
   protect secret jwt_verify findById next [] authorization =
     \<lparr>req_user = Some u,
      res = (if next (Some u) = None then None else Some (401, ''Invalid or expired token'')),
      calls = [JwtVerify token secret, FindById (userId decoded), Next (Some u)]\<rparr>"
  by (cases "next (Some u)")
    (simp_all add: has_token_def protect_def protect_try_def ctx0_def)

theorem protect_admits_any_role_witness:
  "has_token (Some ''Bearer tok'') ''tok'' \<and> verify_tok ''tok'' ''s'' = Inr alice_claims \<and>
   store_alice (userId alice_claims) = Inr (Some alice) \<and>
   protect ''s'' verify_tok store_alice next_returns [] (Some ''Bearer tok'') =
     \<lparr>req_user = Some alice, res = None,
      calls = [JwtVerify ''tok'' ''s'', FindById ''u1'', Next (Some alice)]\<rparr>"
proof -
  have h: "has_token (Some ''Bearer tok'') ''tok''"
    by (simp add: has_token_def extract_token_def)
  have v: "verify_tok ''tok'' ''s'' = Inr alice_claims"
    by (simp add: verify_tok_def)
  have f: "store_alice (userId alice_claims) = Inr (Some alice)"
    by (simp add: store_alice_def alice_claims_def)
  show ?thesis
    using h v f protect_admits_any_role [of "Some ''Bearer tok''" "''tok''" verify_tok
        "''s''" alice_claims store_alice alice next_returns]
    by (simp add: alice_claims_def next_returns_def)
qed

text \<open>
  C9, as the code has it. The claim says that an exception thrown synchronously by the
  downstream handler invoked through \<^verbatim>\<open>next()\<close> is caught by the gate and answered 401.
  Under Express the router catches what the handler throws and \<^verbatim>\<open>next()\<close> returns
  normally, so the gate's \<^verbatim>\<open>catch\<close> never sees it: the gate writes no response at all.
\<close>

theorem protect_handler_throw_not_caught:
  "has_token (Some ''Bearer tok'') ''tok'' \<and> verify_tok ''tok'' ''s'' = Inr alice_claims \<and>
   store_alice (userId alice_claims) = Inr (Some alice) \<and>
   handler_throws (Some alice) = Some (OtherError ''handler failed'') \<and>
   protect ''s'' verify_tok store_alice (express_next handler_throws) []
       (Some ''Bearer tok'') =
     \<lparr>req_user = Some alice, res = None,
      calls = [JwtVerify ''tok'' ''s'', FindById ''u1'', Next (Some alice)]\<rparr>"
  by (simp add: has_token_def extract_token_def verify_tok_def store_alice_def
      alice_claims_def handler_throws_def express_next_def protect_def protect_try_def
      ctx0_def)

text \<open>
  C9, amended. An exception thrown after the token was extracted by the verification, or
  by the lookup in the store, is caught by the one handler of the gate and answered 401
  with the message "Invalid or expired token": a store that fails is answered like an
  invalid token, not with 404 or 500. An exception thrown by the downstream handler is
  not among them: with the \<^verbatim>\<open>next\<close> of Express the gate writes no response once the role
  check has passed, whether the handler throws or not.
\<close>

theorem protect_catches_all:
  "has_token authorization token \<Longrightarrow>
   (jwt_verify token secret = Inl e \<longrightarrow>
      res (protect secret jwt_verify findById next allowedRoles authorization) =
        Some (401, ''Invalid or expired token'')) \<and>
   (jwt_verify token secret = Inr decoded \<and> findById (userId decoded) = Inl e \<longrightarrow>
      res (protect secret jwt_verify findById next allowedRoles authorization) =
        Some (401, ''Invalid or expired token'')) \<and>
   (jwt_verify token secret = Inr decoded \<and> findById (userId decoded) = Inr (Some u) \<and>
    \<not> role_refused allowedRoles u \<longrightarrow>
      res (protect secret jwt_verify findById (express_next handler) allowedRoles
        authorization) = None)"
  by (auto simp: has_token_def protect_def protect_try_def ctx0_def role_refused_def
      express_next_def split: option.splits)

theorem protect_catches_all_witness:
  "has_token (Some ''Bearer tok'') ''tok'' \<and>
   verify_tok ''tok'' ''other'' = Inl SignatureInvalid \<and>
   res (protect ''other'' verify_tok store_alice next_returns [] (Some ''Bearer tok'')) =
     Some (401, ''Invalid or expired token'') \<and>
   verify_tok ''tok'' ''s'' = Inr alice_claims \<and>
   store_down (userId alice_claims) = Inl (OtherError ''connection lost'') \<and>
   res (protect ''s'' verify_tok store_down next_returns [] (Some ''Bearer tok'')) =
     Some (401, ''Invalid or expired token'') \<and>
   store_alice (userId alice_claims) = Inr (Some alice) \<and> \<not> role_refused [''user''] alice \<and>
   res (protect ''s'' verify_tok store_alice (express_next handler_throws) [''user'']
     (Some ''Bearer tok'')) = None"
proof -
  have h: "has_token (Some ''Bearer tok'') ''tok''"
    by (simp add: has_token_def extract_token_def)
  have v0: "verify_tok ''tok'' ''other'' = Inl SignatureInvalid"
    by (simp add: verify_tok_def)
  have v: "verify_tok ''tok'' ''s'' = Inr alice_claims"
    by (simp add: verify_tok_def)
  have d: "store_down (userId alice_claims) = Inl (OtherError ''connection lost'')"
    by (simp add: store_down_def)
  have f: "store_alice (userId alice_claims) = Inr (Some alice)"
    by (simp add: store_alice_def alice_claims_def)
  have r: "\<not> role_refused [''user''] alice"
    by (simp add: role_refused_def alice_def)
  have a: "res (protect ''other'' verify_tok store_alice next_returns [] (Some ''Bearer tok'')) =
     Some (401, ''Invalid or expired token'')"
    using h v0 protect_catches_all [of "Some ''Bearer tok''" "''tok''" verify_tok "''other''"
        SignatureInvalid store_alice next_returns "[]" alice_claims alice handler_throws]
    by simp
  have b: "res (protect ''s'' verify_tok store_down next_returns [] (Some ''Bearer tok'')) =
     Some (401, ''Invalid or expired token'')"
    using h v d protect_catches_all [of "Some ''Bearer tok''" "''tok''" verify_tok "''s''"
        "OtherError ''connection lost''" store_down next_returns "[]" alice_claims alice
        handler_throws]
    by simp
  have c: "res (protect ''s'' verify_tok store_alice (express_next handler_throws) [''user'']
      (Some ''Bearer tok'')) = None"
    using h v f r protect_catches_all [of "Some ''Bearer tok''" "''tok''" verify_tok "''s''"
        "OtherError ''handler failed''" store_alice next_returns "[''user'']" alice_claims alice
        handler_throws]
    by simp
  show ?thesis using h v0 v d f r a b c by simp
qed

section \<open>Properties of the token codec\<close>

text \<open>
  C8. For every subject and role, the token that \<^verbatim>\<open>issueAccessToken\<close> produces at time
  \<open>now\<close> verifies under the access secret at any time \<open>t\<close> not after its expiry, and the
  Claims returned carry that subject and role, \<open>issuedAt = now\<close> and
  \<open>expiresAt = issuedAt + accessTTL\<close>. The library is assumed to read back the token it
  serialised.
\<close>

theorem verify_issued_access_token:
  "parses_back lib (accessClaims cfg now subjectId r)
     (lib_sign lib (accessSecret cfg) (accessClaims cfg now subjectId r)) \<Longrightarrow>
   t \<le> now + accessTTL cfg \<Longrightarrow>
   verify lib t (issueAccessToken lib cfg now subjectId r) (accessSecret cfg) =
     Inr \<lparr>userId = subjectId, role = Some r, issuedAt = now,
          expiresAt = now + accessTTL cfg\<rparr>"
  by (simp add: parses_back_def verify_def issueAccessToken_def accessClaims_def Let_def)

theorem verify_issued_access_token_witness:
  "parses_back demo_lib (accessClaims demo_cfg 1 ''u1'' ''user'')
     (lib_sign demo_lib (accessSecret demo_cfg) (accessClaims demo_cfg 1 ''u1'' ''user'')) \<and>
   (3::nat) \<le> 1 + accessTTL demo_cfg \<and>
   verify demo_lib 3 (issueAccessToken demo_lib demo_cfg 1 ''u1'' ''user'')
     (accessSecret demo_cfg) =
     Inr \<lparr>userId = ''u1'', role = Some ''user'', issuedAt = 1, expiresAt = 3\<rparr>"
proof -
  have p: "parses_back demo_lib (accessClaims demo_cfg 1 ''u1'' ''user'')
     (lib_sign demo_lib (accessSecret demo_cfg) (accessClaims demo_cfg 1 ''u1'' ''user''))"
    by (simp add: parses_back_def demo_lib_def accessClaims_def demo_cfg_def eval_nat_numeral)
  have t: "(3::nat) \<le> 1 + accessTTL demo_cfg"
    by (simp add: demo_cfg_def)
  show ?thesis
    using p t verify_issued_access_token [OF p t] by (simp add: demo_cfg_def)
qed




section \<open>Properties of the login route\<close>




end
